theory Spec2Isabelle
  imports Complex_Main
begin

section \<open>Values of the flat file\<close>

text \<open>
  \<^verbatim>\<open>load_sales_from_csv\<close> returns \<^verbatim>\<open>df.to_dict(orient='records')\<close>: one dictionary per data
  row, from column name to cell. A cell read by pandas is a Python int, a Python float
  (an empty cell is the float NaN) or a str. Floats are only carried through by this
  program, never computed with; a finite float is modelled by the rational it denotes.
\<close>

datatype pyfloat = Fin rat | NaN | PosInf | NegInf

datatype pyval = PyInt int | PyFloat pyfloat | PyStr string

type_synonym row = "string \<rightharpoonup> pyval"

text \<open>
  \<^verbatim>\<open>d.get(k)\<close> is \<open>d k\<close>, where \<open>None\<close> stands for Python's \<^verbatim>\<open>None\<close>;
  \<^verbatim>\<open>d.get(k, default)\<close> is \<open>get_default\<close>.
\<close>

definition get_default :: "row \<Rightarrow> string \<Rightarrow> pyval \<Rightarrow> pyval option" where
  "get_default d k dflt = (case d k of None \<Rightarrow> Some dflt | Some v \<Rightarrow> Some v)"

section \<open>Exceptions\<close>

text \<open>
  The subclasses of \<^verbatim>\<open>Exception\<close> that the program can meet: the two that reading the file
  raises (\<^verbatim>\<open>FileNotFoundError\<close>, and any other one, with its message), the store's
  (\<^verbatim>\<open>OperationalError\<close> when the server cannot be reached, \<^verbatim>\<open>DataError\<close> when a parameter
  is not valid input for an integer column) and pydantic's \<^verbatim>\<open>ValidationError\<close>.
\<close>

datatype exn =
    FileNotFoundError
  | OtherException string
  | OperationalError
  | DataError
  | ValidationError

section \<open>Decimal literals\<close>

text \<open>
  A str that reaches an integer column or a numeric field is read as a number when it
  is a plain decimal literal: an optional sign, digits, and for a float an optional
  fraction part. Other spellings are taken as not numeric.
\<close>

definition digit_of :: "char \<Rightarrow> nat option" where
  "digit_of c =
     (let code = (of_char c :: nat)
      in if 48 \<le> code \<and> code \<le> 57 then Some (code - 48) else None)"

fun digits_from :: "nat \<Rightarrow> string \<Rightarrow> nat option" where
  "digits_from acc [] = Some acc"
| "digits_from acc (c # cs) =
     (case digit_of c of None \<Rightarrow> None | Some d \<Rightarrow> digits_from (10 * acc + d) cs)"

definition nat_of_str :: "string \<Rightarrow> nat option" where
  "nat_of_str s = (if s = [] then None else digits_from 0 s)"

definition int_of_str :: "string \<Rightarrow> int option" where
  "int_of_str s =
     (case s of
        [] \<Rightarrow> None
      | c # cs \<Rightarrow>
          if c = CHR ''-'' then map_option (\<lambda>n. - int n) (nat_of_str cs)
          else if c = CHR ''+'' then map_option int (nat_of_str cs)
          else map_option int (nat_of_str s))"

definition rat_of_str :: "string \<Rightarrow> rat option" where
  "rat_of_str s =
     (let whole = takeWhile (\<lambda>c. c \<noteq> CHR ''.'') s;
          rest = dropWhile (\<lambda>c. c \<noteq> CHR ''.'') s
      in case int_of_str whole of
           None \<Rightarrow> None
         | Some w \<Rightarrow>
             (case rest of
                [] \<Rightarrow> Some (of_int w)
              | _ # fdigits \<Rightarrow>
                  (case nat_of_str fdigits of
                     None \<Rightarrow> None
                   | Some f \<Rightarrow>
                       let q = of_nat f / of_nat (10 ^ length fdigits)
                       in Some (if hd whole = CHR ''-'' then of_int w - q else of_int w + q))))"

section \<open>The relational store\<close>

text \<open>
  The two tables, as SQLAlchemy maps them. \<^verbatim>\<open>id\<close> is the integer primary key, so it is
  never NULL; \<^verbatim>\<open>name\<close> and \<^verbatim>\<open>price\<close> are plain columns and may be NULL (\<open>None\<close>).
  The field \<^verbatim>\<open>id\<close> is written \<open>id_c\<close>, \<open>id_p\<close>, and the others after it.
\<close>

record ClientEntity =
  id_c :: int
  name_c :: "string option"

record ProductEntity =
  id_p :: int
  name_p :: "string option"
  price_p :: "pyfloat option"

text \<open>
  The database behind \<^verbatim>\<open>DATABASE_URL\<close>: the rows of each table, and whether the server
  answers at all.
\<close>

record database =
  clients :: "ClientEntity list"
  products :: "ProductEntity list"
  reachable :: bool

text \<open>The statements a session sends, in order, kept to tell which lookups ran.\<close>

datatype stmt =
    SelectClients
  | SelectProducts
  | SelectClientById "pyval option"
  | SelectProductById "pyval option"

record Session =
  bind :: database
  closed :: bool
  issued :: "stmt list"

definition SessionLocal :: "database \<Rightarrow> Session" where
  "SessionLocal engine = \<lparr>bind = engine, closed = False, issued = []\<rparr>"

definition close :: "Session \<Rightarrow> Session" where
  "close db = db\<lparr>closed := True\<rparr>"

text \<open>
  \<^verbatim>\<open>get_db\<close> is a generator: it yields the session to the endpoint and closes it in its
  \<^verbatim>\<open>finally\<close> block, which runs whether the endpoint returned or raised. The endpoint's
  outcome \<open>r\<close> is the value or the exception.
\<close>

definition get_db :: "database \<Rightarrow> (Session \<Rightarrow> (exn + 'a) \<times> Session) \<Rightarrow> (exn + 'a) \<times> Session" where
  "get_db engine endpoint =
     (let db = SessionLocal engine;
          (r, db') = endpoint db
      in (r, close db'))"

text \<open>
  \<^verbatim>\<open>Entity.id == key\<close> as the store evaluates it on an integer column. \<^verbatim>\<open>None\<close> becomes
  \<^verbatim>\<open>IS NULL\<close>, which no primary key satisfies; an int or a float is compared as a number
  (NaN and the infinities equal no integer); a str must be valid input for an integer.
\<close>

fun id_equals :: "pyval option \<Rightarrow> exn + (int \<Rightarrow> bool)" where
  "id_equals None = Inr (\<lambda>i. False)"
| "id_equals (Some (PyInt n)) = Inr (\<lambda>i. i = n)"
| "id_equals (Some (PyFloat (Fin q))) = Inr (\<lambda>i. of_int i = q)"
| "id_equals (Some (PyFloat f)) = Inr (\<lambda>i. False)"
| "id_equals (Some (PyStr s)) =
     (case int_of_str s of None \<Rightarrow> Inl DataError | Some n \<Rightarrow> Inr (\<lambda>i. i = n))"

definition execute :: "stmt \<Rightarrow> Session \<Rightarrow> Session" where
  "execute q db = db\<lparr>issued := issued db @ [q]\<rparr>"

text \<open>\<^verbatim>\<open>db.query(ClientEntity).all()\<close> and \<^verbatim>\<open>db.query(ProductEntity).all()\<close>.\<close>

definition query_all_clients :: "Session \<Rightarrow> (exn + ClientEntity list) \<times> Session" where
  "query_all_clients db =
     (if reachable (bind db) then (Inr (clients (bind db)), execute SelectClients db)
      else (Inl OperationalError, execute SelectClients db))"

definition query_all_products :: "Session \<Rightarrow> (exn + ProductEntity list) \<times> Session" where
  "query_all_products db =
     (if reachable (bind db) then (Inr (products (bind db)), execute SelectProducts db)
      else (Inl OperationalError, execute SelectProducts db))"

text \<open>
  \<^verbatim>\<open>db.query(ClientEntity).filter(ClientEntity.id == key).first()\<close>, and the same for
  products: the first matching row, or \<^verbatim>\<open>None\<close>.
\<close>

definition query_first_client :: "pyval option \<Rightarrow> Session \<Rightarrow> (exn + ClientEntity option) \<times> Session" where
  "query_first_client key db =
     (let db' = execute (SelectClientById key) db
      in if \<not> reachable (bind db) then (Inl OperationalError, db')
         else case id_equals key of
                Inl e \<Rightarrow> (Inl e, db')
              | Inr same \<Rightarrow> (Inr (find (\<lambda>c. same (id_c c)) (clients (bind db))), db'))"

definition query_first_product :: "pyval option \<Rightarrow> Session \<Rightarrow> (exn + ProductEntity option) \<times> Session" where
  "query_first_product key db =
     (let db' = execute (SelectProductById key) db
      in if \<not> reachable (bind db) then (Inl OperationalError, db')
         else case id_equals key of
                Inl e \<Rightarrow> (Inl e, db')
              | Inr same \<Rightarrow> (Inr (find (\<lambda>p. same (id_p p)) (products (bind db))), db'))"

section \<open>The response model\<close>

text \<open>
  \<^verbatim>\<open>SaleOutput\<close> is \<^verbatim>\<open>Sale\<close> with the two names; \<^verbatim>\<open>id\<close> is written \<open>id_s\<close>.
\<close>

record SaleOutput =
  id_s :: int
  client_id :: int
  product_id :: int
  sale_amount :: pyfloat
  client_name :: string
  product_name :: string

text \<open>
  The validation pydantic runs when a model is built, field by field (pydantic 2 in its
  default, lax mode). Every field is required and none is \<^verbatim>\<open>Optional\<close>, so \<^verbatim>\<open>None\<close> is
  refused everywhere. An \<^verbatim>\<open>int\<close> field takes an int, a float without fraction part or a
  numeric str; a \<^verbatim>\<open>float\<close> field takes a float (NaN and the infinities too), an int or
  a numeric str; a \<^verbatim>\<open>str\<close> field takes a str.
\<close>

fun int_field :: "pyval option \<Rightarrow> int option" where
  "int_field None = None"
| "int_field (Some (PyInt n)) = Some n"
| "int_field (Some (PyFloat (Fin q))) = (if of_int \<lfloor>q\<rfloor> = q then Some \<lfloor>q\<rfloor> else None)"
| "int_field (Some (PyFloat f)) = None"
| "int_field (Some (PyStr s)) = int_of_str s"

fun float_field :: "pyval option \<Rightarrow> pyfloat option" where
  "float_field None = None"
| "float_field (Some (PyInt n)) = Some (Fin (of_int n))"
| "float_field (Some (PyFloat f)) = Some f"
| "float_field (Some (PyStr s)) = map_option Fin (rat_of_str s)"

definition new_SaleOutput ::
  "pyval option \<Rightarrow> pyval option \<Rightarrow> pyval option \<Rightarrow> pyval option \<Rightarrow> string option \<Rightarrow> string option
     \<Rightarrow> exn + SaleOutput" where
  "new_SaleOutput i c p a cn pn =
     (case (int_field i, int_field c, int_field p, float_field a, cn, pn) of
        (Some i', Some c', Some p', Some a', Some cn', Some pn') \<Rightarrow>
          Inr \<lparr>id_s = i', client_id = c', product_id = p', sale_amount = a',
               client_name = cn', product_name = pn'\<rparr>
      | _ \<Rightarrow> Inl ValidationError)"

section \<open>Loading the flat file\<close>

definition CSV_FILE_PATH :: string where
  "CSV_FILE_PATH = ''path/to/your/sales.csv''"

text \<open>
  \<open>read_csv path\<close> stands for \<^verbatim>\<open>pd.read_csv(path).to_dict(orient='records')\<close> on the
  file system of the moment: the rows, or the exception raised. The two handlers of
  \<^verbatim>\<open>load_sales_from_csv\<close> follow in the source's order.
\<close>

definition load_sales_from_csv :: "(string \<Rightarrow> exn + row list) \<Rightarrow> string \<Rightarrow> exn + row list" where
  "load_sales_from_csv read_csv file_path =
     (case read_csv file_path of
        Inr records \<Rightarrow> Inr records
      | Inl FileNotFoundError \<Rightarrow> Inr []
      | Inl e \<Rightarrow> Inr [])"

section \<open>The endpoints\<close>

definition read_clients :: "Session \<Rightarrow> (exn + ClientEntity list) \<times> Session" where
  "read_clients db = query_all_clients db"

definition read_products :: "Session \<Rightarrow> (exn + ProductEntity list) \<times> Session" where
  "read_products db = query_all_products db"

text \<open>
  The body of the loop of \<^verbatim>\<open>read_sales\<close>, for one row: the client is looked up, then
  the product, then the \<^verbatim>\<open>SaleOutput\<close> is built. An exception ends it at once.
\<close>

definition enrich_sale :: "row \<Rightarrow> Session \<Rightarrow> (exn + SaleOutput) \<times> Session" where
  "enrich_sale sale_record_csv db =
     (case query_first_client (sale_record_csv ''client_id'') db of
        (Inl e, db1) \<Rightarrow> (Inl e, db1)
      | (Inr client_db, db1) \<Rightarrow>
          (case query_first_product (sale_record_csv ''product_id'') db1 of
             (Inl e, db2) \<Rightarrow> (Inl e, db2)
           | (Inr product_db, db2) \<Rightarrow>
               (new_SaleOutput
                  (get_default sale_record_csv ''id'' (PyInt 0))
                  (sale_record_csv ''client_id'')
                  (sale_record_csv ''product_id'')
                  (get_default sale_record_csv ''sale_amount'' (PyFloat (Fin 0)))
                  (case client_db of Some c \<Rightarrow> name_c c | None \<Rightarrow> Some ''N/A'')
                  (case product_db of Some p \<Rightarrow> name_p p | None \<Rightarrow> Some ''N/A''),
                db2)))"

text \<open>
  The loop itself: the rows still to do, the list \<^verbatim>\<open>enriched_sales_data\<close> built so far,
  the session. An exception in the body leaves the loop and the endpoint.
\<close>

fun enrich_loop :: "row list \<Rightarrow> SaleOutput list \<Rightarrow> Session \<Rightarrow> (exn + SaleOutput list) \<times> Session" where
  "enrich_loop [] enriched_sales_data db = (Inr enriched_sales_data, db)"
| "enrich_loop (sale_record_csv # rest) enriched_sales_data db =
     (case enrich_sale sale_record_csv db of
        (Inl e, db') \<Rightarrow> (Inl e, db')
      | (Inr sale_output_enriched, db') \<Rightarrow>
          enrich_loop rest (enriched_sales_data @ [sale_output_enriched]) db')"

definition read_sales :: "(string \<Rightarrow> exn + row list) \<Rightarrow> Session \<Rightarrow> (exn + SaleOutput list) \<times> Session" where
  "read_sales read_csv db =
     (case load_sales_from_csv read_csv CSV_FILE_PATH of
        Inl e \<Rightarrow> (Inl e, db)
      | Inr sales_data_from_csv \<Rightarrow>
          if sales_data_from_csv = [] then (Inr [], db)
          else enrich_loop sales_data_from_csv [] db)"

section \<open>Files and stores used in the examples\<close>

text \<open>A file system that holds the sales file with the given rows, and one without it.\<close>

definition only_file :: "row list \<Rightarrow> string \<Rightarrow> exn + row list" where
  "only_file records path = (if path = CSV_FILE_PATH then Inr records else Inl FileNotFoundError)"

definition no_file :: "string \<Rightarrow> exn + row list" where
  "no_file path = Inl FileNotFoundError"

definition sale_row :: "pyval \<Rightarrow> pyval \<Rightarrow> pyval \<Rightarrow> pyval \<Rightarrow> row" where
  "sale_row i c p a =
     [''id'' \<mapsto> i, ''client_id'' \<mapsto> c, ''product_id'' \<mapsto> p, ''sale_amount'' \<mapsto> a]"

text \<open>The store of the scenario: Client(1, "Acme") and Product(9, "Widget").\<close>

definition acme_store :: "pyfloat option \<Rightarrow> database" where
  "acme_store price =
     \<lparr>clients = [\<lparr>id_c = 1, name_c = Some ''Acme''\<rparr>],
      products = [\<lparr>id_p = 9, name_p = Some ''Widget'', price_p = price\<rparr>],
      reachable = True\<rparr>"




text \<open>A store whose only client carries the sentinel as its name.\<close>

definition na_store :: database where
  "na_store =
     \<lparr>clients = [\<lparr>id_c = 1, name_c = Some ''N/A''\<rparr>], products = [], reachable = True\<rparr>"


definition row_without_client_id :: row where
  "row_without_client_id =
     [''id'' \<mapsto> PyInt 1, ''product_id'' \<mapsto> PyInt 9, ''sale_amount'' \<mapsto> PyFloat (Fin 12.5)]"

definition row_without_id_and_amount :: row where
  "row_without_id_and_amount = [''client_id'' \<mapsto> PyInt 1, ''product_id'' \<mapsto> PyInt 9]"

lemmas eval_defs =
  get_db_def read_sales_def load_sales_from_csv_def only_file_def no_file_def sale_row_def
  acme_store_def na_store_def SessionLocal_def enrich_sale_def query_first_client_def
  query_first_product_def execute_def new_SaleOutput_def get_default_def close_def

section \<open>The session and the store across a call\<close>


lemma execute_bind [simp]: "bind (execute q db) = bind db"
  by (simp add: execute_def)

lemma query_first_client_bind [simp]: "bind (snd (query_first_client key db)) = bind db"
  by (simp add: query_first_client_def Let_def split: sum.splits)

lemma query_first_product_bind [simp]: "bind (snd (query_first_product key db)) = bind db"
  by (simp add: query_first_product_def Let_def split: sum.splits)

lemma query_first_client_fst:
  "fst (query_first_client key db) =
     (if \<not> reachable (bind db) then Inl OperationalError
      else case id_equals key of Inl e \<Rightarrow> Inl e
           | Inr same \<Rightarrow> Inr (find (\<lambda>c. same (id_c c)) (clients (bind db))))"
  by (simp add: query_first_client_def Let_def split: sum.splits)

lemma query_first_product_fst:
  "fst (query_first_product key db) =
     (if \<not> reachable (bind db) then Inl OperationalError
      else case id_equals key of Inl e \<Rightarrow> Inl e
           | Inr same \<Rightarrow> Inr (find (\<lambda>p. same (id_p p)) (products (bind db))))"
  by (simp add: query_first_product_def Let_def split: sum.splits)

lemma enrich_sale_bind [simp]: "bind (snd (enrich_sale r db)) = bind db"
proof -
  obtain x db1 where c: "query_first_client (r ''client_id'') db = (x, db1)"
    by (cases "query_first_client (r ''client_id'') db")
  have b1: "bind db1 = bind db"
    using query_first_client_bind [of "r ''client_id''" db] c by simp
  obtain y db2 where p: "query_first_product (r ''product_id'') db1 = (y, db2)"
    by (cases "query_first_product (r ''product_id'') db1")
  have b2: "bind db2 = bind db1"
    using query_first_product_bind [of "r ''product_id''" db1] p by simp
  show ?thesis
    using c p b1 b2 by (cases x; cases y) (simp_all add: enrich_sale_def)
qed

text \<open>The value of the loop body, as a function of the store alone.\<close>

lemma enrich_sale_fst:
  "fst (enrich_sale r db) =
     (if \<not> reachable (bind db) then Inl OperationalError
      else case id_equals (r ''client_id'') of
        Inl e \<Rightarrow> Inl e
      | Inr same_c \<Rightarrow>
         (case id_equals (r ''product_id'') of
            Inl e \<Rightarrow> Inl e
          | Inr same_p \<Rightarrow>
              new_SaleOutput
                (get_default r ''id'' (PyInt 0)) (r ''client_id'') (r ''product_id'')
                (get_default r ''sale_amount'' (PyFloat (Fin 0)))
                (case find (\<lambda>c. same_c (id_c c)) (clients (bind db)) of
                   Some c \<Rightarrow> name_c c | None \<Rightarrow> Some ''N/A'')
                (case find (\<lambda>p. same_p (id_p p)) (products (bind db)) of
                   Some p \<Rightarrow> name_p p | None \<Rightarrow> Some ''N/A'')))"
proof -
  obtain x db1 where c: "query_first_client (r ''client_id'') db = (x, db1)"
    by (cases "query_first_client (r ''client_id'') db")
  have b1: "bind db1 = bind db"
    using query_first_client_bind [of "r ''client_id''" db] c by simp
  have x: "x = fst (query_first_client (r ''client_id'') db)" using c by simp
  obtain y db2 where p: "query_first_product (r ''product_id'') db1 = (y, db2)"
    by (cases "query_first_product (r ''product_id'') db1")
  have y: "y = fst (query_first_product (r ''product_id'') db1)" using p by simp
  show ?thesis
  proof (cases x)
    case (Inl e)
    then have "fst (enrich_sale r db) = Inl e" by (simp add: enrich_sale_def c)
    then show ?thesis
      using Inl x by (auto simp: query_first_client_fst split: sum.splits if_splits)
  next
    case cl: (Inr client_db)
    show ?thesis
    proof (cases y)
      case (Inl e)
      then have "fst (enrich_sale r db) = Inl e" by (simp add: enrich_sale_def c p cl)
      then show ?thesis
        using Inl cl x y b1
        by (auto simp: query_first_client_fst query_first_product_fst split: sum.splits if_splits)
    next
      case (Inr product_db)
      then have "fst (enrich_sale r db) =
          new_SaleOutput
                (get_default r ''id'' (PyInt 0)) (r ''client_id'') (r ''product_id'')
                (get_default r ''sale_amount'' (PyFloat (Fin 0)))
                (case client_db of Some c \<Rightarrow> name_c c | None \<Rightarrow> Some ''N/A'')
                (case product_db of Some p \<Rightarrow> name_p p | None \<Rightarrow> Some ''N/A'')"
        by (simp add: enrich_sale_def c p cl)
      then show ?thesis
        using Inr cl x y b1
        by (auto simp: query_first_client_fst query_first_product_fst split: sum.splits if_splits)
    qed
  qed
qed

lemma enrich_sale_store:
  assumes "bind db = bind db'"
  shows "fst (enrich_sale r db) = fst (enrich_sale r db')"
  unfolding enrich_sale_fst assms ..

lemma enrich_loop_bind [simp]: "bind (snd (enrich_loop rows acc db)) = bind db"
proof (induction rows arbitrary: acc db)
  case Nil
  show ?case by simp
next
  case (Cons r rows)
  obtain x db' where e: "enrich_sale r db = (x, db')" by (cases "enrich_sale r db")
  have b: "bind db' = bind db" using enrich_sale_bind [of r db] e by simp
  show ?case using Cons.IH b e by (cases x) simp_all
qed

lemma enrich_loop_Inr:
  "fst (enrich_loop rows acc db) = Inr outs \<longleftrightarrow>
     (\<exists>new. outs = acc @ new \<and> map (\<lambda>r. fst (enrich_sale r db)) rows = map Inr new)"
proof (induction rows arbitrary: acc db outs)
  case Nil
  show ?case by auto
next
  case (Cons r rows)
  obtain x db' where e: "enrich_sale r db = (x, db')" by (cases "enrich_sale r db")
  have b: "bind db' = bind db" using enrich_sale_bind [of r db] e by simp
  have same: "\<And>r'. fst (enrich_sale r' db') = fst (enrich_sale r' db)"
    using b by (rule enrich_sale_store)
  show ?case
  proof (cases x)
    case (Inl err)
    then show ?thesis using e by auto
  next
    case (Inr s)
    have "fst (enrich_loop (r # rows) acc db) = Inr outs \<longleftrightarrow>
          fst (enrich_loop rows (acc @ [s]) db') = Inr outs"
      using e Inr by simp
    also have "\<dots> \<longleftrightarrow> (\<exists>new. outs = (acc @ [s]) @ new \<and> map (\<lambda>r. fst (enrich_sale r db)) rows = map Inr new)"
      using Cons.IH [of "acc @ [s]" db' outs] same by simp
    also have "\<dots> \<longleftrightarrow> (\<exists>new. outs = acc @ new \<and> map (\<lambda>r. fst (enrich_sale r db)) (r # rows) = map Inr new)"
    proof
      assume "\<exists>new. outs = (acc @ [s]) @ new \<and> map (\<lambda>r. fst (enrich_sale r db)) rows = map Inr new"
      then obtain new where "outs = (acc @ [s]) @ new" "map (\<lambda>r. fst (enrich_sale r db)) rows = map Inr new"
        by blast
      then have "outs = acc @ (s # new) \<and> map (\<lambda>r. fst (enrich_sale r db)) (r # rows) = map Inr (s # new)"
        using e Inr by simp
      then show "\<exists>new. outs = acc @ new \<and> map (\<lambda>r. fst (enrich_sale r db)) (r # rows) = map Inr new"
        by blast
    next
      assume "\<exists>new. outs = acc @ new \<and> map (\<lambda>r. fst (enrich_sale r db)) (r # rows) = map Inr new"
      then obtain new where n: "outs = acc @ new" "map (\<lambda>r. fst (enrich_sale r db)) (r # rows) = map Inr new"
        by blast
      then obtain s' new' where "new = s' # new'" by (cases new) auto
      then have "outs = (acc @ [s]) @ new' \<and> map (\<lambda>r. fst (enrich_sale r db)) rows = map Inr new'"
        using n e Inr by simp
      then show "\<exists>new. outs = (acc @ [s]) @ new \<and> map (\<lambda>r. fst (enrich_sale r db)) rows = map Inr new"
        by blast
    qed
    finally show ?thesis .
  qed
qed

section \<open>What a served request returns\<close>


lemma load_sales_from_csv_Inr:
  "read_csv path = Inr rows \<Longrightarrow> load_sales_from_csv read_csv path = Inr rows"
  by (simp add: load_sales_from_csv_def)

lemma read_sales_Inr:
  assumes "read_csv CSV_FILE_PATH = Inr rows"
  shows "fst (read_sales read_csv db) = Inr outs \<longleftrightarrow>
           map (\<lambda>r. fst (enrich_sale r db)) rows = map Inr outs"
proof (cases "rows = []")
  case True
  then show ?thesis
    using assms by (auto simp: read_sales_def load_sales_from_csv_def)
next
  case False
  then have "fst (read_sales read_csv db) = fst (enrich_loop rows [] db)"
    using assms by (simp add: read_sales_def load_sales_from_csv_def)
  then show ?thesis
    by (simp add: enrich_loop_Inr)
qed

lemma read_sales_nth:
  assumes "read_csv CSV_FILE_PATH = Inr rows"
    and "fst (read_sales read_csv db) = Inr outs"
  shows "length outs = length rows"
    and "i < length rows \<Longrightarrow> fst (enrich_sale (rows ! i) db) = Inr (outs ! i)"
proof -
  have m: "map (\<lambda>r. fst (enrich_sale r db)) rows = map Inr outs"
    using assms by (simp add: read_sales_Inr)
  from m show len: "length outs = length rows"
    by (metis length_map)
  assume i: "i < length rows"
  have "map (\<lambda>r. fst (enrich_sale r db)) rows ! i = map Inr outs ! i"
    using m by simp
  then show "fst (enrich_sale (rows ! i) db) = Inr (outs ! i)"
    using i len by simp
qed

lemma id_equals_int_field:
  assumes "id_equals k = Inr same" and "int_field k = Some n"
  shows "same = (\<lambda>i. i = n)"
proof (cases k)
  case None
  then show ?thesis using assms by simp
next
  case (Some v)
  show ?thesis
  proof (cases v)
    case (PyInt m)
    then show ?thesis using Some assms by auto
  next
    case (PyFloat f)
    show ?thesis
    proof (cases f)
      case (Fin q)
      then have q: "of_int n = q" and s: "same = (\<lambda>i. of_int i = q)"
        using Some PyFloat assms by (auto split: if_splits)
      show ?thesis unfolding s using q by auto
    qed (use Some PyFloat assms in auto)
  next
    case (PyStr s)
    then show ?thesis using Some assms by (auto split: option.splits)
  qed
qed

lemma new_SaleOutput_Inr:
  "new_SaleOutput i c p a cn pn = Inr out \<longleftrightarrow>
     int_field i = Some (id_s out) \<and> int_field c = Some (client_id out)
     \<and> int_field p = Some (product_id out) \<and> float_field a = Some (sale_amount out)
     \<and> cn = Some (client_name out) \<and> pn = Some (product_name out)"
  by (cases out) (auto simp: new_SaleOutput_def split: option.splits)

lemma enrich_sale_Inr:
  "fst (enrich_sale r db) = Inr out \<longleftrightarrow>
     reachable (bind db)
     \<and> int_field (get_default r ''id'' (PyInt 0)) = Some (id_s out)
     \<and> int_field (r ''client_id'') = Some (client_id out)
     \<and> int_field (r ''product_id'') = Some (product_id out)
     \<and> float_field (get_default r ''sale_amount'' (PyFloat (Fin 0))) = Some (sale_amount out)
     \<and> (\<exists>same_c. id_equals (r ''client_id'') = Inr same_c)
     \<and> (\<exists>same_p. id_equals (r ''product_id'') = Inr same_p)
     \<and> (case find (\<lambda>c. id_c c = client_id out) (clients (bind db)) of
           Some c \<Rightarrow> name_c c | None \<Rightarrow> Some ''N/A'') = Some (client_name out)
     \<and> (case find (\<lambda>p. id_p p = product_id out) (products (bind db)) of
           Some p \<Rightarrow> name_p p | None \<Rightarrow> Some ''N/A'') = Some (product_name out)"
  (is "?L \<longleftrightarrow> ?R")
proof
  assume L: ?L
  then have up: "reachable (bind db)"
    by (auto simp: enrich_sale_fst split: if_splits)
  from L up obtain same_c where sc: "id_equals (r ''client_id'') = Inr same_c"
    by (auto simp: enrich_sale_fst split: sum.splits)
  from L up sc obtain same_p where sp: "id_equals (r ''product_id'') = Inr same_p"
    by (auto simp: enrich_sale_fst split: sum.splits)
  from L up sc sp have n: "new_SaleOutput
                (get_default r ''id'' (PyInt 0)) (r ''client_id'') (r ''product_id'')
                (get_default r ''sale_amount'' (PyFloat (Fin 0)))
                (case find (\<lambda>c. same_c (id_c c)) (clients (bind db)) of
                   Some c \<Rightarrow> name_c c | None \<Rightarrow> Some ''N/A'')
                (case find (\<lambda>p. same_p (id_p p)) (products (bind db)) of
                   Some p \<Rightarrow> name_p p | None \<Rightarrow> Some ''N/A'') = Inr out"
    by (simp add: enrich_sale_fst)
  then have ic: "int_field (r ''client_id'') = Some (client_id out)"
    and ip: "int_field (r ''product_id'') = Some (product_id out)"
    by (simp_all add: new_SaleOutput_Inr)
  have c: "same_c = (\<lambda>i. i = client_id out)" using sc ic by (rule id_equals_int_field)
  have p: "same_p = (\<lambda>i. i = product_id out)" using sp ip by (rule id_equals_int_field)
  show ?R using n up sc sp unfolding c p by (simp add: new_SaleOutput_Inr)
next
  assume R: ?R
  then obtain same_c same_p where sc: "id_equals (r ''client_id'') = Inr same_c"
    and sp: "id_equals (r ''product_id'') = Inr same_p" by blast
  have c: "same_c = (\<lambda>i. i = client_id out)" using sc R by (auto intro: id_equals_int_field)
  have p: "same_p = (\<lambda>i. i = product_id out)" using sp R by (auto intro: id_equals_int_field)
  show ?L using R sc sp unfolding c p
    by (simp add: enrich_sale_fst new_SaleOutput_Inr)
qed

lemma find_unique:
  assumes "distinct (map f xs)" and "x \<in> set xs"
  shows "find (\<lambda>y. f y = f x) xs = Some x"
  using assms
proof (induction xs)
  case Nil
  then show ?case by simp
next
  case (Cons a xs)
  then show ?case by (cases "a = x") force+
qed

lemma find_absent: "(\<forall>x\<in>set xs. f x \<noteq> n) \<Longrightarrow> find (\<lambda>y. f y = n) xs = None"
  by (simp add: find_None_iff)

text \<open>
  What the expression \<^verbatim>\<open>e.name if e else "N/A"\<close> tells about the table, once the name
  passed validation, when the key column has no duplicates.
\<close>

lemma resolved_name:
  assumes "(case find (\<lambda>c. f c = n) xs of Some c \<Rightarrow> g c | None \<Rightarrow> Some ''N/A'') = Some nm"
    and "distinct (map f xs)"
  shows "\<forall>c\<in>set xs. f c = n \<longrightarrow> g c = Some nm"
    and "(\<forall>c\<in>set xs. f c \<noteq> n) \<longrightarrow> nm = ''N/A''"
    and "(\<forall>c\<in>set xs. g c \<noteq> Some ''N/A'') \<longrightarrow> (nm = ''N/A'' \<longleftrightarrow> (\<forall>c\<in>set xs. f c \<noteq> n))"
proof -
  show 1: "\<forall>c\<in>set xs. f c = n \<longrightarrow> g c = Some nm"
  proof (intro ballI impI)
    fix c assume "c \<in> set xs" "f c = n"
    then have "find (\<lambda>y. f y = n) xs = Some c"
      using find_unique [OF assms(2), of c] by auto
    then show "g c = Some nm" using assms(1) by simp
  qed
  show 2: "(\<forall>c\<in>set xs. f c \<noteq> n) \<longrightarrow> nm = ''N/A''"
  proof
    assume "\<forall>c\<in>set xs. f c \<noteq> n"
    then have "find (\<lambda>y. f y = n) xs = None" by (rule find_absent)
    then show "nm = ''N/A''" using assms(1) by simp
  qed
  show "(\<forall>c\<in>set xs. g c \<noteq> Some ''N/A'') \<longrightarrow> (nm = ''N/A'' \<longleftrightarrow> (\<forall>c\<in>set xs. f c \<noteq> n))"
    using 1 2 by blast
qed

lemma get_db_closed: "closed (snd (get_db engine endpoint))"
  by (simp add: get_db_def close_def split: prod.splits)

lemma read_sales_bind: "bind (snd (read_sales read_csv db)) = bind db"
  by (simp add: read_sales_def split: sum.splits)

lemma read_clients_bind: "bind (snd (read_clients db)) = bind db"
  by (simp add: read_clients_def query_all_clients_def)

lemma read_products_bind: "bind (snd (read_products db)) = bind db"
  by (simp add: read_products_def query_all_products_def)

lemma get_db_bind:
  assumes "\<And>db. bind (snd (endpoint db)) = bind db"
  shows "bind (snd (get_db engine endpoint)) = engine"
proof -
  obtain r db' where r: "endpoint (SessionLocal engine) = (r, db')"
    by (cases "endpoint (SessionLocal engine)")
  then have "bind db' = engine"
    using assms [of "SessionLocal engine"] by (simp add: SessionLocal_def)
  then show ?thesis using r by (simp add: get_db_def close_def)
qed

section \<open>Well-formed files are served\<close>







section \<open>The claims\<close>

text \<open>
  C1, as amended. For a served request, row \<open>i\<close> of the file and entry \<open>i\<close> of the
  result: the entry's \<open>client_id\<close> is the row's; every client of the store with that id
  has the entry's \<open>client_name\<close> as its name; when no client has that id the name is the
  sentinel "N/A"; and when no client of the store is itself named "N/A", the name is "N/A"
  exactly when no client has that id. The same holds for the product. The primary keys of
  the two tables are unique.
\<close>

theorem read_sales_names_resolved:
  assumes csv: "read_csv CSV_FILE_PATH = Inr rows"
    and ok: "fst (read_sales read_csv db) = Inr outs"
    and i: "i < length rows"
    and pk_c: "distinct (map id_c (clients (bind db)))"
    and pk_p: "distinct (map id_p (products (bind db)))"
  shows "int_field ((rows ! i) ''client_id'') = Some (client_id (outs ! i))
     \<and> (\<forall>c\<in>set (clients (bind db)).
          id_c c = client_id (outs ! i) \<longrightarrow> name_c c = Some (client_name (outs ! i)))
     \<and> ((\<forall>c\<in>set (clients (bind db)). id_c c \<noteq> client_id (outs ! i))
          \<longrightarrow> client_name (outs ! i) = ''N/A'')
     \<and> ((\<forall>c\<in>set (clients (bind db)). name_c c \<noteq> Some ''N/A'')
          \<longrightarrow> (client_name (outs ! i) = ''N/A''
                \<longleftrightarrow> (\<forall>c\<in>set (clients (bind db)). id_c c \<noteq> client_id (outs ! i))))
     \<and> int_field ((rows ! i) ''product_id'') = Some (product_id (outs ! i))
     \<and> (\<forall>p\<in>set (products (bind db)).
          id_p p = product_id (outs ! i) \<longrightarrow> name_p p = Some (product_name (outs ! i)))
     \<and> ((\<forall>p\<in>set (products (bind db)). id_p p \<noteq> product_id (outs ! i))
          \<longrightarrow> product_name (outs ! i) = ''N/A'')
     \<and> ((\<forall>p\<in>set (products (bind db)). name_p p \<noteq> Some ''N/A'')
          \<longrightarrow> (product_name (outs ! i) = ''N/A''
                \<longleftrightarrow> (\<forall>p\<in>set (products (bind db)). id_p p \<noteq> product_id (outs ! i))))"
proof -
  have e: "fst (enrich_sale (rows ! i) db) = Inr (outs ! i)"
    using csv ok i by (rule read_sales_nth(2))
  have c: "(case find (\<lambda>c. id_c c = client_id (outs ! i)) (clients (bind db)) of
              Some c \<Rightarrow> name_c c | None \<Rightarrow> Some ''N/A'') = Some (client_name (outs ! i))"
    and p: "(case find (\<lambda>p. id_p p = product_id (outs ! i)) (products (bind db)) of
              Some p \<Rightarrow> name_p p | None \<Rightarrow> Some ''N/A'') = Some (product_name (outs ! i))"
    and kc: "int_field ((rows ! i) ''client_id'') = Some (client_id (outs ! i))"
    and kp: "int_field ((rows ! i) ''product_id'') = Some (product_id (outs ! i))"
    using e by (simp_all add: enrich_sale_Inr)
  show ?thesis
    using kc kp resolved_name [OF c pk_c] resolved_name [OF p pk_p] by simp
qed

text \<open>
  The theorem at the store of the scenario and a row for client 1 and the unknown
  product 7: the client's name is found, the product's is the sentinel.
\<close>

theorem read_sales_names_resolved_witness:
  "only_file [sale_row (PyInt 1) (PyInt 1) (PyInt 7) (PyFloat (Fin 12.5))] CSV_FILE_PATH
     = Inr [sale_row (PyInt 1) (PyInt 1) (PyInt 7) (PyFloat (Fin 12.5))]
   \<and> fst (read_sales (only_file [sale_row (PyInt 1) (PyInt 1) (PyInt 7) (PyFloat (Fin 12.5))])
                     (SessionLocal (acme_store None)))
     = Inr [\<lparr>id_s = 1, client_id = 1, product_id = 7, sale_amount = Fin 12.5,
             client_name = ''Acme'', product_name = ''N/A''\<rparr>]
   \<and> distinct (map id_c (clients (acme_store None)))
   \<and> distinct (map id_p (products (acme_store None)))
   \<and> name_c \<lparr>id_c = 1, name_c = Some ''Acme''\<rparr> = Some ''Acme''"
proof -
  let ?rows = "[sale_row (PyInt 1) (PyInt 1) (PyInt 7) (PyFloat (Fin 12.5))]"
  let ?outs = "[\<lparr>id_s = 1, client_id = 1, product_id = 7, sale_amount = Fin 12.5,
             client_name = ''Acme'', product_name = ''N/A''\<rparr>]"
  have f: "only_file ?rows CSV_FILE_PATH = Inr ?rows" by (simp add: only_file_def)
  have ok: "fst (read_sales (only_file ?rows) (SessionLocal (acme_store None))) = Inr ?outs"
    by (simp add: eval_defs)
  have d1: "distinct (map id_c (clients (bind (SessionLocal (acme_store None)))))"
    by (simp add: acme_store_def SessionLocal_def)
  have d2: "distinct (map id_p (products (bind (SessionLocal (acme_store None)))))"
    by (simp add: acme_store_def SessionLocal_def)
  show ?thesis
    using f ok read_sales_names_resolved [OF f ok _ d1 d2, of 0]
    by (simp add: acme_store_def SessionLocal_def)
qed

text \<open>
  C1 as stated fails: the store holds a client 1 whose name is "N/A"; the row for client 1
  is given the name "N/A" although a client with that id exists.
\<close>

theorem client_named_sentinel_counterexample:
  "fst (read_sales (only_file [sale_row (PyInt 1) (PyInt 1) (PyInt 9) (PyFloat (Fin 12.5))])
          (SessionLocal na_store)) =
     Inr [\<lparr>id_s = 1, client_id = 1, product_id = 9, sale_amount = Fin 12.5,
           client_name = ''N/A'', product_name = ''N/A''\<rparr>]
   \<and> \<lparr>id_c = 1, name_c = Some ''N/A''\<rparr> \<in> set (clients na_store)"
  by (simp add: eval_defs)



text \<open>
  C3 does not hold of the code. A file without the \<open>client_id\<close> column, against the store
  of the scenario: \<^verbatim>\<open>.get('client_id')\<close> passes \<^verbatim>\<open>None\<close> on, the lookup finds nothing, and
  building the \<^verbatim>\<open>SaleOutput\<close> raises \<^verbatim>\<open>ValidationError\<close>; no entry is emitted and the request
  fails.
\<close>

theorem missing_client_id_fails_validation:
  "fst (get_db (acme_store None) (read_sales (only_file [row_without_client_id])))
     = Inl ValidationError"
  by (simp add: eval_defs row_without_client_id_def)

text \<open>
  C4. \<^verbatim>\<open>load_sales_from_csv\<close> never ends in an exception, and whenever reading the file
  raised one, it returns the empty list.
\<close>

theorem load_sales_from_csv_never_raises:
  "\<not> isl (load_sales_from_csv read_csv file_path)
   \<and> (isl (read_csv file_path) \<longrightarrow> load_sales_from_csv read_csv file_path = Inr [])"
  by (auto simp: load_sales_from_csv_def split: sum.splits exn.splits)

text \<open>The theorem where the file is absent.\<close>

theorem load_sales_from_csv_never_raises_witness:
  "isl (no_file CSV_FILE_PATH) \<and> load_sales_from_csv no_file CSV_FILE_PATH = Inr []"
  using load_sales_from_csv_never_raises [of no_file CSV_FILE_PATH]
  by (simp add: no_file_def)

text \<open>
  C5. When the loader returns no row, \<^verbatim>\<open>read_sales\<close> returns the empty list and leaves
  the session as it found it; over the whole request, no statement was sent to the store.
\<close>

theorem read_sales_empty_short_circuit:
  assumes "load_sales_from_csv read_csv CSV_FILE_PATH = Inr []"
  shows "read_sales read_csv db = (Inr [], db)
         \<and> issued (snd (get_db engine (read_sales read_csv))) = []"
  using assms by (simp add: read_sales_def get_db_def SessionLocal_def close_def)

text \<open>The theorem where the file is absent.\<close>

theorem read_sales_empty_short_circuit_witness:
  "load_sales_from_csv no_file CSV_FILE_PATH = Inr []
   \<and> read_sales no_file (SessionLocal (acme_store None)) = (Inr [], SessionLocal (acme_store None))
   \<and> issued (snd (get_db (acme_store None) (read_sales no_file))) = []"
proof -
  have h: "load_sales_from_csv no_file CSV_FILE_PATH = Inr []"
    by (simp add: load_sales_from_csv_def no_file_def)
  show ?thesis using h read_sales_empty_short_circuit [OF h] by simp
qed

text \<open>
  C6. The scenario: the store holds Client(1, "Acme") and Product(9, "Widget") (at any
  price), the file the single row with id 1, client 1, product 9 and amount 12.5.
\<close>

theorem read_sales_acme_scenario:
  "fst (get_db (acme_store price)
         (read_sales (only_file [sale_row (PyInt 1) (PyInt 1) (PyInt 9) (PyFloat (Fin 12.5))]))) =
   Inr [\<lparr>id_s = 1, client_id = 1, product_id = 9, sale_amount = Fin 12.5,
         client_name = ''Acme'', product_name = ''Widget''\<rparr>]"
  by (simp add: eval_defs)

text \<open>
  C7. For each of the three endpoints, on every store and every file system, and so
  whether the endpoint returned a value or raised, the session of the request is closed
  when the request is over.
\<close>

theorem session_closed_on_every_exit:
  "closed (snd (get_db engine read_clients))
   \<and> closed (snd (get_db engine read_products))
   \<and> closed (snd (get_db engine (read_sales read_csv)))"
  by (simp add: get_db_closed)

text \<open>
  C8. After a request to any of the three endpoints the database is the one the request
  started with: no row of either table was changed, added or removed.
\<close>

theorem endpoints_leave_store_unchanged:
  "bind (snd (get_db engine read_clients)) = engine
   \<and> bind (snd (get_db engine read_products)) = engine
   \<and> bind (snd (get_db engine (read_sales read_csv))) = engine"
  by (simp add: get_db_bind read_clients_bind read_products_bind read_sales_bind)


text \<open>
  C10. For a served request: an entry whose row has no \<open>id\<close> carries the id 0, and one
  whose row has no \<open>sale_amount\<close> carries the amount 0.0. Moreover the two fields are not
  needed for the request to be served: taking both away from row \<open>i\<close> of the file gives
  the same result, but for the id 0 and the amount 0.0 in entry \<open>i\<close>.
\<close>

theorem missing_id_and_amount_defaulted:
  assumes csv: "read_csv CSV_FILE_PATH = Inr rows"
    and ok: "fst (read_sales read_csv db) = Inr outs"
    and i: "i < length rows"
  shows "((rows ! i) ''id'' = None \<longrightarrow> id_s (outs ! i) = 0)
     \<and> ((rows ! i) ''sale_amount'' = None \<longrightarrow> sale_amount (outs ! i) = Fin 0)
     \<and> fst (read_sales
              (read_csv(CSV_FILE_PATH :=
                 Inr (rows[i := (rows ! i)(''id'' := None, ''sale_amount'' := None)])))
              db)
         = Inr (outs[i := (outs ! i)\<lparr>id_s := 0, sale_amount := Fin 0\<rparr>])"
proof -
  have e: "fst (enrich_sale (rows ! i) db) = Inr (outs ! i)"
    using csv ok i by (rule read_sales_nth(2))
  let ?r = "(rows ! i)(''id'' := None, ''sale_amount'' := None)"
  let ?o = "(outs ! i)\<lparr>id_s := 0, sale_amount := Fin 0\<rparr>"
  have e': "fst (enrich_sale ?r db) = Inr ?o"
    using e by (simp add: enrich_sale_Inr get_default_def)
  have m: "map (\<lambda>r. fst (enrich_sale r db)) rows = map Inr outs"
    using csv ok by (simp add: read_sales_Inr)
  have "map (\<lambda>r. fst (enrich_sale r db)) (rows[i := ?r]) = map Inr (outs[i := ?o])"
    using m e' by (simp add: map_update)
  then have "fst (read_sales (read_csv(CSV_FILE_PATH := Inr (rows[i := ?r]))) db)
               = Inr (outs[i := ?o])"
    by (simp add: read_sales_Inr)
  moreover have "(rows ! i) ''id'' = None \<longrightarrow> id_s (outs ! i) = 0"
    using e by (auto simp: enrich_sale_Inr get_default_def)
  moreover have "(rows ! i) ''sale_amount'' = None \<longrightarrow> sale_amount (outs ! i) = Fin 0"
    using e by (auto simp: enrich_sale_Inr get_default_def)
  ultimately show ?thesis by blast
qed

text \<open>
  The theorem at a file whose single row has neither \<open>id\<close> nor \<open>sale_amount\<close>: the entry
  has the id 0 and the amount 0.0.
\<close>

theorem missing_id_and_amount_defaulted_witness:
  "only_file [row_without_id_and_amount] CSV_FILE_PATH = Inr [row_without_id_and_amount]
   \<and> fst (read_sales (only_file [row_without_id_and_amount]) (SessionLocal (acme_store None)))
       = Inr [\<lparr>id_s = 0, client_id = 1, product_id = 9, sale_amount = Fin 0,
               client_name = ''Acme'', product_name = ''Widget''\<rparr>]
   \<and> row_without_id_and_amount ''id'' = None
   \<and> row_without_id_and_amount ''sale_amount'' = None"
proof -
  let ?rows = "[row_without_id_and_amount]"
  let ?outs = "[\<lparr>id_s = 0, client_id = 1, product_id = 9, sale_amount = Fin 0,
               client_name = ''Acme'', product_name = ''Widget''\<rparr>]"
  have f: "only_file ?rows CSV_FILE_PATH = Inr ?rows" by (simp add: only_file_def)
  have ok: "fst (read_sales (only_file ?rows) (SessionLocal (acme_store None))) = Inr ?outs"
    by (simp add: eval_defs row_without_id_and_amount_def)
  show ?thesis
    using f ok missing_id_and_amount_defaulted [OF f ok, of 0]
    by (simp add: row_without_id_and_amount_def)
qed

end
